theory Spec2Isabelle
  imports Complex_Main
begin

section \<open>Missing-value analysis of a data frame (dataprep/eda/missing/computation.py)\<close>

text \<open>
  The module computes the intermediate results behind \<^verbatim>\<open>plot_missing\<close>. Its functions
  are embedded here under their own names; Python's leading underscore is dropped, since
  an Isabelle name starts with a letter (\<^verbatim>\<open>_calc_nonzero_count\<close> is
  \<open>calc_nonzero_count\<close>). Names of the pandas, numpy and dask operations the module calls
  are kept as well (\<open>isnull\<close>, \<open>dropna\<close>, \<open>count_nonzero\<close>, \<open>compute\<close>).
\<close>

subsection \<open>Data model\<close>

text \<open>
  A cell holds a value or is missing. pandas treats \<^verbatim>\<open>None\<close>, \<^verbatim>\<open>NaN\<close> and the null
  markers alike (\<^verbatim>\<open>pd.isnull\<close> is true of each of them), so all of them are the one
  value \<open>None\<close>.
\<close>

datatype val = Num int | Str string

type_synonym cell = "val option"

text \<open>
  A data frame is its row labels (\<^verbatim>\<open>df.index\<close>) and its named columns in order, each
  column holding one cell per row label. pandas keeps every frame rectangular;
  \<open>wf_table\<close> says so.
\<close>

record table =
  index :: "nat list"
  cols :: "(string \<times> cell list) list"

definition columns :: "table \<Rightarrow> string list" where
  "columns df = map fst (cols df)"

definition wf_table :: "table \<Rightarrow> bool" where
  "wf_table df = list_all (\<lambda>c. length (snd c) = length (index df)) (cols df)"

text \<open>
  The exceptions the module raises or lets through: \<^verbatim>\<open>ValueError\<close> with its message,
  \<^verbatim>\<open>KeyError\<close> with the labels that were not found, and \<^verbatim>\<open>ZeroDivisionError\<close>.
\<close>

datatype error = ValueError string | KeyError "string list" | ZeroDivisionError

text \<open>
  \<^verbatim>\<open>Intermediate(result=..., raw_data=..., visual_type=...)\<close>. The \<^verbatim>\<open>result\<close>
  dictionary has the keys \<^verbatim>\<open>distribution\<close> and \<^verbatim>\<open>count\<close>, or \<^verbatim>\<open>df_data_drop\<close> and
  \<^verbatim>\<open>columns_name\<close>; the \<^verbatim>\<open>raw_data\<close> dictionary has the key \<^verbatim>\<open>df\<close> and, depending
  on the analyzer, \<^verbatim>\<open>x_name\<close>, \<^verbatim>\<open>y_name\<close> and \<^verbatim>\<open>num_bins\<close> (a key that is not set
  is \<open>None\<close>).
\<close>

datatype payload =
  Nonzero (distribution: "int list list") (count: "rat list")
| Impact (df_data_drop: table) (columns_name: "string list")

record raw =
  df :: table
  x_name :: "string option"
  y_name :: "string option"
  num_bins :: "int option"

record Intermediate =
  result :: payload
  raw_data :: raw
  visual_type :: string

subsection \<open>Library operations the module calls\<close>

text \<open>\<^verbatim>\<open>df.values.T\<close>: the cells as an array of shape (C, R), one row per column.\<close>

definition values_T :: "table \<Rightarrow> cell list list" where
  "values_T t = map snd (cols t)"

text \<open>\<^verbatim>\<open>pd.isnull\<close> on an array: elementwise, true where the cell is missing.\<close>

definition isnull :: "cell list list \<Rightarrow> bool list list" where
  "isnull a = map (map (\<lambda>v. v = None)) a"

text \<open>\<^verbatim>\<open>np.count_nonzero\<close> on a boolean vector: the number of true entries (a Python int).\<close>

definition count_nonzero :: "bool list \<Rightarrow> nat" where
  "count_nonzero data = length (filter (\<lambda>b. b) data)"

text \<open>
  \<^verbatim>\<open>dask.compute(*tasks)\<close>: runs the delayed calls and gathers their values in the order
  of the arguments; an exception of a task is raised by \<^verbatim>\<open>compute\<close>.
\<close>

fun compute :: "(error + 'a) list \<Rightarrow> error + 'a list" where
  "compute [] = Inr []"
| "compute (Inl e # ts) = Inl e"
| "compute (Inr v # ts) = (case compute ts of Inl e \<Rightarrow> Inl e | Inr vs \<Rightarrow> Inr (v # vs))"

text \<open>
  The slice \<^verbatim>\<open>a[:k]\<close> for an integer \<open>k\<close>: the first \<open>k\<close> entries, clamped to the length;
  a negative \<open>k\<close> counts from the end (all but the last \<open>-k\<close> entries).
\<close>

definition py_prefix :: "int \<Rightarrow> 'a list \<Rightarrow> 'a list" where
  "py_prefix k xs = (if 0 \<le> k then take (nat k) xs else take (length xs - nat (- k)) xs)"

text \<open>
  \<^verbatim>\<open>df.dropna(subset=labels)\<close> with the defaults \<^verbatim>\<open>axis=0\<close>, \<^verbatim>\<open>how='any'\<close>,
  \<^verbatim>\<open>inplace=False\<close>: a label that is no column raises \<^verbatim>\<open>KeyError\<close>; otherwise a new
  frame keeps, in order, the rows that are present in every column carrying one of the
  labels. \<open>positions\<close> are the kept row positions.
\<close>

definition take_labels :: "table \<Rightarrow> string list \<Rightarrow> (string \<times> cell list) list" where
  "take_labels t labels = concat (map (\<lambda>k. filter (\<lambda>c. fst c = k) (cols t)) labels)"

definition positions :: "table \<Rightarrow> string list \<Rightarrow> nat list" where
  "positions t labels =
     filter (\<lambda>r. list_all (\<lambda>c. snd c ! r \<noteq> None) (take_labels t labels))
       [0..<length (index t)]"

definition take_rows :: "table \<Rightarrow> nat list \<Rightarrow> table" where
  "take_rows t ps =
     \<lparr>index = map (\<lambda>r. index t ! r) ps,
      cols = map (\<lambda>c. (fst c, map (\<lambda>r. snd c ! r) ps)) (cols t)\<rparr>"

definition dropna :: "table \<Rightarrow> string list \<Rightarrow> error + table" where
  "dropna t labels =
     (let missing = filter (\<lambda>k. k \<notin> set (columns t)) labels
      in if missing \<noteq> [] then Inl (KeyError missing)
         else Inr (take_rows t (positions t labels)))"

text \<open>
  \<^verbatim>\<open>df[[k1, k2, ...]]\<close>: a label that is no column raises \<^verbatim>\<open>KeyError\<close>; otherwise a
  new frame with the same rows holds, for each label in turn, the columns carrying it.
\<close>

definition getitem_list :: "table \<Rightarrow> string list \<Rightarrow> error + table" where
  "getitem_list t labels =
     (let missing = filter (\<lambda>k. k \<notin> set (columns t)) labels
      in if missing \<noteq> [] then Inl (KeyError missing)
         else Inr \<lparr>index = index t, cols = take_labels t labels\<rparr>)"

text \<open>\<^verbatim>\<open>lst.remove(x)\<close>: drops the first occurrence, \<^verbatim>\<open>ValueError\<close> when there is none.\<close>

definition list_remove :: "string list \<Rightarrow> string \<Rightarrow> error + string list" where
  "list_remove lst x =
     (if x \<in> set lst then Inr (remove1 x lst)
      else Inl (ValueError ''list.remove(x): x not in list''))"

subsection \<open>The analyzers\<close>

text \<open>
  \<^verbatim>\<open>_calc_nonzero_rate(data, length)\<close> returns \<^verbatim>\<open>np.count_nonzero(data) / length\<close>: the
  true division of two Python ints, which raises \<^verbatim>\<open>ZeroDivisionError\<close> for a zero
  divisor. The quotient is kept exact (a rational); Python rounds it to the nearest
  float.
\<close>

definition calc_nonzero_rate :: "bool list \<Rightarrow> nat \<Rightarrow> error + rat" where
  "calc_nonzero_rate data len =
     (if len = 0 then Inl ZeroDivisionError
      else Inr (of_nat (count_nonzero data) / of_nat len))"

text \<open>
  \<^verbatim>\<open>_calc_nonzero_count\<close>. \<open>pd_data_frame_value\<close> has shape \<open>(row, col)\<close> = (C, R): its
  row \<open>i\<close> is column \<open>i\<close> of the frame, and the loop runs over \<open>range(row)\<close>, that is over
  the columns of the frame, dividing by \<open>col\<close>, the number of rows of the frame.
\<close>

definition clip :: "int option \<Rightarrow> int option \<Rightarrow> int list list \<Rightarrow> int list list" where
  "clip num_rows num_cols a =
     (case (num_rows, num_cols) of
        (Some nr, Some nc) \<Rightarrow> map (py_prefix nr) (py_prefix nc a)
      | (None, Some nc) \<Rightarrow> py_prefix nc a
      | (Some nr, None) \<Rightarrow> map (py_prefix nr) a
      | (None, None) \<Rightarrow> a)"

definition calc_nonzero_count :: "table \<Rightarrow> int option \<Rightarrow> int option \<Rightarrow> error + Intermediate" where
  "calc_nonzero_count pd_data_frame num_rows num_cols =
     (let pd_data_frame_value = isnull (values_T pd_data_frame);
          row = length (cols pd_data_frame);
          col = length (index pd_data_frame);
          count_nonzero_list =
            map (\<lambda>i. calc_nonzero_rate (pd_data_frame_value ! i) col) [0..<row]
      in case compute count_nonzero_list of
           Inl e \<Rightarrow> Inl e
         | Inr count_nonzero_compute \<Rightarrow>
             Inr \<lparr>result =
                    Nonzero
                      (clip num_rows num_cols
                         (map (map (\<lambda>b. if b then 1 else 0)) pd_data_frame_value))
                      count_nonzero_compute,
                  raw_data = \<lparr>df = pd_data_frame, x_name = None, y_name = None, num_bins = None\<rparr>,
                  visual_type = ''dummy''\<rparr>)"

text \<open>
  \<^verbatim>\<open>_calc_missing_impact\<close>: the rows with \<open>x_name\<close> missing are dropped, and the name is
  removed from a copy of the column names.
\<close>

definition calc_missing_impact :: "table \<Rightarrow> string \<Rightarrow> int \<Rightarrow> error + Intermediate" where
  "calc_missing_impact pd_data_frame x bins =
     (case dropna pd_data_frame [x] of
        Inl e \<Rightarrow> Inl e
      | Inr dropped \<Rightarrow>
          (case list_remove (columns pd_data_frame) x of
             Inl e \<Rightarrow> Inl e
           | Inr names \<Rightarrow>
               Inr \<lparr>result = Impact dropped names,
                    raw_data = \<lparr>df = pd_data_frame, x_name = Some x, y_name = None,
                                num_bins = Some bins\<rparr>,
                    visual_type = ''dummy''\<rparr>))"

text \<open>
  \<^verbatim>\<open>_calc_missing_impact_y\<close>: the frame is narrowed to \<open>[x_name, y_name]\<close>, the rows
  with \<open>x_name\<close> missing are dropped, and the name list is the column list of the
  frame that is left.
\<close>

definition calc_missing_impact_y :: "table \<Rightarrow> string \<Rightarrow> string \<Rightarrow> int \<Rightarrow> error + Intermediate" where
  "calc_missing_impact_y pd_data_frame x y bins =
     (case getitem_list pd_data_frame [x, y] of
        Inl e \<Rightarrow> Inl e
      | Inr df_data_sel \<Rightarrow>
          (case dropna df_data_sel [x] of
             Inl e \<Rightarrow> Inl e
           | Inr dropped \<Rightarrow>
               Inr \<lparr>result = Impact dropped (columns dropped),
                    raw_data = \<lparr>df = pd_data_frame, x_name = Some x, y_name = Some y,
                                num_bins = Some bins\<rparr>,
                    visual_type = ''dummy''\<rparr>))"

subsection \<open>The dispatcher\<close>

text \<open>
  The dispatcher raises \<^verbatim>\<open>ValueError\<close> twice; the message tells the two apart. The
  specification calls them UnsupportedColumnType and InvalidArguments, and calls a
  \<^verbatim>\<open>KeyError\<close> ColumnNotFound.
\<close>

definition UnsupportedColumnType :: error where
  "UnsupportedColumnType = ValueError ''the column's data type is error''"

definition InvalidArguments :: error where
  "InvalidArguments = ValueError ''Please give a value to x_name''"

fun ColumnNotFound :: "error \<Rightarrow> bool" where
  "ColumnNotFound (KeyError labels) = True"
| "ColumnNotFound e = False"

text \<open>
  \<^verbatim>\<open>DataType\<close> and \<^verbatim>\<open>get_type\<close> come from \<^verbatim>\<open>dataprep/utils\<close>, and the three
  \<^verbatim>\<open>_vis_\<close> functions from the visualization module; neither is part of this module.
  The dispatcher only compares the tag of a column with \<^verbatim>\<open>TYPE_NUM\<close> and \<^verbatim>\<open>TYPE_CAT\<close>,
  so every other tag is the one value \<open>TYPE_UNSUP\<close>. \<open>get_type\<close> and the rendering
  functions are parameters of the dispatcher: functions of their arguments that return
  a value and change nothing.
\<close>

datatype DataType = TYPE_NUM | TYPE_CAT | TYPE_UNSUP

record params =
  height :: int
  width :: int
  alpha :: rat
  legend_position :: string

record 'fig rendering =
  vis_nonzero_count :: "Intermediate \<Rightarrow> params \<Rightarrow> 'fig"
  vis_missing_impact :: "Intermediate \<Rightarrow> params \<Rightarrow> 'fig"
  vis_missing_impact_y :: "Intermediate \<Rightarrow> params \<Rightarrow> 'fig"

text \<open>What \<^verbatim>\<open>plot_missing\<close> returns: the figure, or the figure and the intermediate.\<close>

datatype 'fig returned = Fig 'fig | FigIntermediate 'fig Intermediate

text \<open>\<^verbatim>\<open>pd_data_frame[name]\<close>: the column (or columns) carrying the label, with the row labels.\<close>

definition getitem :: "table \<Rightarrow> string \<Rightarrow> table" where
  "getitem t name = \<lparr>index = index t, cols = filter (\<lambda>c. fst c = name) (cols t)\<rparr>"

text \<open>The loop over \<open>columns_name\<close> that raises at the first column of another type.\<close>

fun check_types :: "(table \<Rightarrow> DataType) \<Rightarrow> table \<Rightarrow> string list \<Rightarrow> error + unit" where
  "check_types get_type t [] = Inr ()"
| "check_types get_type t (name # names) =
     (if get_type (getitem t name) \<noteq> TYPE_NUM \<and> get_type (getitem t name) \<noteq> TYPE_CAT
      then Inl UnsupportedColumnType
      else check_types get_type t names)"

definition the_params :: params where
  "the_params = \<lparr>height = 375, width = 325, alpha = 3 / 10, legend_position = ''top''\<rparr>"

definition finish :: "bool \<Rightarrow> 'fig \<Rightarrow> Intermediate \<Rightarrow> 'fig returned" where
  "finish return_intermediate fig intermediate =
     (if return_intermediate then FigIntermediate fig intermediate else Fig fig)"

text \<open>
  \<^verbatim>\<open>plot_missing\<close>. The analyzers are called without \<^verbatim>\<open>num_bins\<close>, so with their
  default 10. \<^verbatim>\<open>show(fig)\<close> displays the figure and contributes nothing to the value.
\<close>

definition plot_missing ::
  "(table \<Rightarrow> DataType) \<Rightarrow> 'fig rendering \<Rightarrow> table \<Rightarrow> string option \<Rightarrow> string option \<Rightarrow>
   int option \<Rightarrow> int option \<Rightarrow> bool \<Rightarrow> error + 'fig returned" where
  "plot_missing get_type vis pd_data_frame x y num_rows num_cols return_intermediate =
     (case check_types get_type pd_data_frame (columns pd_data_frame) of
        Inl e \<Rightarrow> Inl e
      | Inr u \<Rightarrow>
          (case (x, y) of
             (Some xn, Some yn) \<Rightarrow>
               (case calc_missing_impact_y pd_data_frame xn yn 10 of
                  Inl e \<Rightarrow> Inl e
                | Inr intermediate \<Rightarrow>
                    Inr (finish return_intermediate
                           (vis_missing_impact_y vis intermediate the_params) intermediate))
           | (Some xn, None) \<Rightarrow>
               (case calc_missing_impact pd_data_frame xn 10 of
                  Inl e \<Rightarrow> Inl e
                | Inr intermediate \<Rightarrow>
                    Inr (finish return_intermediate
                           (vis_missing_impact vis intermediate the_params) intermediate))
           | (None, Some yn) \<Rightarrow> Inl InvalidArguments
           | (None, None) \<Rightarrow>
               (case calc_nonzero_count pd_data_frame num_rows num_cols of
                  Inl e \<Rightarrow> Inl e
                | Inr intermediate \<Rightarrow>
                    Inr (finish return_intermediate
                           (vis_nonzero_count vis intermediate the_params) intermediate))))"

subsection \<open>The module on a store of objects\<close>

text \<open>
  Python passes the frame by reference, and a callee could change the caller's object.
  To say that it does not, the module is embedded a second time on a store: the frames
  and the name lists live at references, the references below \<open>next_ref\<close> being the ones
  in use. The pandas operations are the ones the module calls, with their default
  arguments: \<^verbatim>\<open>dropna\<close> (no \<^verbatim>\<open>inplace\<close>), \<^verbatim>\<open>df[[...]]\<close> and \<^verbatim>\<open>list(df.columns)\<close>
  build a new object, which is put at \<open>next_ref\<close>; \<^verbatim>\<open>lst.remove(x)\<close> changes the list it
  is called on in place. The arrays of the global analyzer are built by \<^verbatim>\<open>pd.isnull\<close>,
  then only read and sliced, and the column \<^verbatim>\<open>pd_data_frame[name]\<close> is only handed to
  \<open>get_type\<close>, so they stay values. The intermediate keeps the reference of the caller's
  frame under \<^verbatim>\<open>df\<close>, not a copy. Each function returns its outcome and the store it
  leaves.
\<close>

type_synonym ref = nat

record store =
  frames :: "ref \<Rightarrow> table"
  name_lists :: "ref \<Rightarrow> string list"
  next_ref :: ref

definition new_frame :: "store \<Rightarrow> table \<Rightarrow> ref \<times> store" where
  "new_frame h t =
     (next_ref h, h\<lparr>frames := (frames h)(next_ref h := t), next_ref := Suc (next_ref h)\<rparr>)"

definition new_list :: "store \<Rightarrow> string list \<Rightarrow> ref \<times> store" where
  "new_list h lst =
     (next_ref h,
      h\<lparr>name_lists := (name_lists h)(next_ref h := lst), next_ref := Suc (next_ref h)\<rparr>)"

text \<open>\<^verbatim>\<open>df.dropna(subset=labels)\<close>: reads the frame and returns a new one.\<close>

definition dropna_st :: "store \<Rightarrow> ref \<Rightarrow> string list \<Rightarrow> (error + ref) \<times> store" where
  "dropna_st h r labels =
     (case dropna (frames h r) labels of
        Inl e \<Rightarrow> (Inl e, h)
      | Inr t \<Rightarrow> apfst Inr (new_frame h t))"

text \<open>\<^verbatim>\<open>df[[k1, k2, ...]]\<close>: reads the frame and returns a new one.\<close>

definition getitem_list_st :: "store \<Rightarrow> ref \<Rightarrow> string list \<Rightarrow> (error + ref) \<times> store" where
  "getitem_list_st h r labels =
     (case getitem_list (frames h r) labels of
        Inl e \<Rightarrow> (Inl e, h)
      | Inr t \<Rightarrow> apfst Inr (new_frame h t))"

text \<open>\<^verbatim>\<open>list(df.columns)\<close>: a new list holding the column names.\<close>

definition list_columns_st :: "store \<Rightarrow> ref \<Rightarrow> ref \<times> store" where
  "list_columns_st h r = new_list h (columns (frames h r))"

text \<open>\<^verbatim>\<open>lst.remove(x)\<close>: changes the list at the reference.\<close>

definition remove_st :: "store \<Rightarrow> ref \<Rightarrow> string \<Rightarrow> (error + unit) \<times> store" where
  "remove_st h r x =
     (case list_remove (name_lists h r) x of
        Inl e \<Rightarrow> (Inl e, h)
      | Inr lst \<Rightarrow> (Inr (), h\<lparr>name_lists := (name_lists h)(r := lst)\<rparr>))"

text \<open>
  An intermediate whose \<^verbatim>\<open>df\<close>, \<^verbatim>\<open>df_data_drop\<close> and \<^verbatim>\<open>columns_name\<close> entries are
  references, and the intermediate it stands for in a store.
\<close>

datatype payload_st =
  Nonzero_st "int list list" "rat list"
| Impact_st ref ref

record Intermediate_st =
  result_st :: payload_st
  df_st :: ref
  x_name_st :: "string option"
  y_name_st :: "string option"
  num_bins_st :: "int option"

definition deref :: "store \<Rightarrow> Intermediate_st \<Rightarrow> Intermediate" where
  "deref h i =
     \<lparr>result =
        (case result_st i of
           Nonzero_st d c \<Rightarrow> Nonzero d c
         | Impact_st a b \<Rightarrow> Impact (frames h a) (name_lists h b)),
      raw_data = \<lparr>df = frames h (df_st i), x_name = x_name_st i, y_name = y_name_st i,
                  num_bins = num_bins_st i\<rparr>,
      visual_type = ''dummy''\<rparr>"

definition calc_nonzero_count_st ::
  "store \<Rightarrow> ref \<Rightarrow> int option \<Rightarrow> int option \<Rightarrow> (error + Intermediate_st) \<times> store" where
  "calc_nonzero_count_st h pd_data_frame num_rows num_cols =
     (case calc_nonzero_count (frames h pd_data_frame) num_rows num_cols of
        Inl e \<Rightarrow> (Inl e, h)
      | Inr im \<Rightarrow>
          (Inr \<lparr>result_st = Nonzero_st (distribution (result im)) (count (result im)),
                df_st = pd_data_frame, x_name_st = None, y_name_st = None,
                num_bins_st = None\<rparr>, h))"

definition calc_missing_impact_st ::
  "store \<Rightarrow> ref \<Rightarrow> string \<Rightarrow> int \<Rightarrow> (error + Intermediate_st) \<times> store" where
  "calc_missing_impact_st h pd_data_frame x bins =
     (case dropna_st h pd_data_frame [x] of
        (Inl e, h1) \<Rightarrow> (Inl e, h1)
      | (Inr df_data_drop_r, h1) \<Rightarrow>
          (case list_columns_st h1 pd_data_frame of
             (columns_name_r, h2) \<Rightarrow>
               (case remove_st h2 columns_name_r x of
                  (Inl e, h3) \<Rightarrow> (Inl e, h3)
                | (Inr u, h3) \<Rightarrow>
                    (Inr \<lparr>result_st = Impact_st df_data_drop_r columns_name_r,
                          df_st = pd_data_frame, x_name_st = Some x, y_name_st = None,
                          num_bins_st = Some bins\<rparr>, h3))))"

definition calc_missing_impact_y_st ::
  "store \<Rightarrow> ref \<Rightarrow> string \<Rightarrow> string \<Rightarrow> int \<Rightarrow> (error + Intermediate_st) \<times> store" where
  "calc_missing_impact_y_st h pd_data_frame x y bins =
     (case getitem_list_st h pd_data_frame [x, y] of
        (Inl e, h1) \<Rightarrow> (Inl e, h1)
      | (Inr df_data_sel_r, h1) \<Rightarrow>
          (case dropna_st h1 df_data_sel_r [x] of
             (Inl e, h2) \<Rightarrow> (Inl e, h2)
           | (Inr df_data_drop_r, h2) \<Rightarrow>
               (case list_columns_st h2 df_data_drop_r of
                  (columns_name_r, h3) \<Rightarrow>
                    (Inr \<lparr>result_st = Impact_st df_data_drop_r columns_name_r,
                          df_st = pd_data_frame, x_name_st = Some x, y_name_st = Some y,
                          num_bins_st = Some bins\<rparr>, h3))))"

text \<open>
  The dispatcher on the store. \<open>get_type\<close> and the rendering functions read what they are
  given (a column of the frame, the intermediate as it stands in the store) and change
  nothing, as before.
\<close>

datatype 'fig returned_st = Fig_st 'fig | FigIntermediate_st 'fig Intermediate_st

definition render_st ::
  "(Intermediate \<Rightarrow> params \<Rightarrow> 'fig) \<Rightarrow> bool \<Rightarrow> (error + Intermediate_st) \<times> store \<Rightarrow>
   (error + 'fig returned_st) \<times> store" where
  "render_st vis_fn return_intermediate outcome =
     (case outcome of
        (Inl e, h) \<Rightarrow> (Inl e, h)
      | (Inr intermediate, h) \<Rightarrow>
          (Inr (if return_intermediate
                then FigIntermediate_st (vis_fn (deref h intermediate) the_params) intermediate
                else Fig_st (vis_fn (deref h intermediate) the_params)), h))"

definition plot_missing_st ::
  "(table \<Rightarrow> DataType) \<Rightarrow> 'fig rendering \<Rightarrow> store \<Rightarrow> ref \<Rightarrow> string option \<Rightarrow> string option \<Rightarrow>
   int option \<Rightarrow> int option \<Rightarrow> bool \<Rightarrow> (error + 'fig returned_st) \<times> store" where
  "plot_missing_st get_type vis h pd_data_frame x y num_rows num_cols return_intermediate =
     (case list_columns_st h pd_data_frame of
        (columns_name_r, h1) \<Rightarrow>
          (case check_types get_type (frames h1 pd_data_frame) (name_lists h1 columns_name_r) of
             Inl e \<Rightarrow> (Inl e, h1)
           | Inr u \<Rightarrow>
               (case (x, y) of
                  (Some xn, Some yn) \<Rightarrow>
                    render_st (vis_missing_impact_y vis) return_intermediate
                      (calc_missing_impact_y_st h1 pd_data_frame xn yn 10)
                | (Some xn, None) \<Rightarrow>
                    render_st (vis_missing_impact vis) return_intermediate
                      (calc_missing_impact_st h1 pd_data_frame xn 10)
                | (None, Some yn) \<Rightarrow> (Inl InvalidArguments, h1)
                | (None, None) \<Rightarrow>
                    render_st (vis_nonzero_count vis) return_intermediate
                      (calc_nonzero_count_st h1 pd_data_frame num_rows num_cols))))"

text \<open>Every object in use in \<open>h\<close> is still in use, and the same, in \<open>h'\<close>.\<close>

definition unchanged :: "store \<Rightarrow> store \<Rightarrow> bool" where
  "unchanged h h' =
     (next_ref h \<le> next_ref h' \<and>
      (\<forall>r < next_ref h. frames h' r = frames h r \<and> name_lists h' r = name_lists h r))"

text \<open>
  What an outcome on the store stands for: the intermediate, and what \<^verbatim>\<open>plot_missing\<close>
  returns, with every reference replaced by the object it designates in the store the
  call leaves.
\<close>

definition value_of :: "(error + Intermediate_st) \<times> store \<Rightarrow> error + Intermediate" where
  "value_of outcome = map_sum id (deref (snd outcome)) (fst outcome)"

definition returned_of :: "(error + 'fig returned_st) \<times> store \<Rightarrow> error + 'fig returned" where
  "returned_of outcome =
     map_sum id
       (\<lambda>ret. case ret of
                 Fig_st fig \<Rightarrow> Fig fig
               | FigIntermediate_st fig i \<Rightarrow> FigIntermediate fig (deref (snd outcome) i))
       (fst outcome)"

subsection \<open>Example inputs\<close>

text \<open>The frame with the columns A = [1, None, 3] and B = [None, 2, 3].\<close>

definition example :: table where
  "example =
     \<lparr>index = [0, 1, 2],
      cols = [(''A'', [Some (Num 1), None, Some (Num 3)]),
              (''B'', [None, Some (Num 2), Some (Num 3)])]\<rparr>"

text \<open>A frame with one column and no row.\<close>

definition no_rows :: table where
  "no_rows = \<lparr>index = [], cols = [(''A'', [])]\<rparr>"

text \<open>
  A frame in which two columns carry the name A: A = [1, None], A = [2, 3] and
  B = [None, 4].
\<close>

definition repeated_names :: table where
  "repeated_names =
     \<lparr>index = [0, 1],
      cols = [(''A'', [Some (Num 1), None]),
              (''A'', [Some (Num 2), Some (Num 3)]),
              (''B'', [None, Some (Num 4)])]\<rparr>"

text \<open>Classifiers and a rendering for the examples.\<close>

definition all_numeric :: "table \<Rightarrow> DataType" where
  "all_numeric s = TYPE_NUM"

definition none_supported :: "table \<Rightarrow> DataType" where
  "none_supported s = TYPE_UNSUP"

definition caption :: "Intermediate \<Rightarrow> params \<Rightarrow> string" where
  "caption intermediate p = visual_type intermediate"

definition captions :: "string rendering" where
  "captions = \<lparr>vis_nonzero_count = caption, vis_missing_impact = caption,
                vis_missing_impact_y = caption\<rparr>"

text \<open>A store for the examples: the caller's frame at reference 0, nothing else.\<close>

definition example_store :: store where
  "example_store = \<lparr>frames = (\<lambda>r. example), name_lists = (\<lambda>r. []), next_ref = 1\<rparr>"

section \<open>Properties\<close>

subsection \<open>Gathering the rates\<close>

lemma compute_map_Inr: "compute (map (\<lambda>i. Inr (f i)) xs) = Inr (map f xs)"
  by (induction xs) simp_all

lemma compute_map_Inl: "xs \<noteq> [] \<Longrightarrow> compute (map (\<lambda>i. Inl e) xs) = Inl e"
  by (cases xs) simp_all

lemma calc_nonzero_count_returns:
  assumes "index t \<noteq> [] \<or> cols t = []"
  shows "calc_nonzero_count t nr nc =
           Inr \<lparr>result =
                  Nonzero
                    (clip nr nc (map (map (\<lambda>b. if b then 1 else 0)) (isnull (values_T t))))
                    (map (\<lambda>i. of_nat (count_nonzero (isnull (values_T t) ! i)) /
                                of_nat (length (index t))) [0..<length (cols t)]),
                raw_data = \<lparr>df = t, x_name = None, y_name = None, num_bins = None\<rparr>,
                visual_type = ''dummy''\<rparr>"
proof (cases "index t = []")
  case True
  with assms have "cols t = []" by simp
  then show ?thesis
    by (simp add: calc_nonzero_count_def Let_def)
next
  case False
  then have "(\<lambda>i. calc_nonzero_rate (isnull (values_T t) ! i) (length (index t))) =
             (\<lambda>i. Inr (of_nat (count_nonzero (isnull (values_T t) ! i)) /
                        of_nat (length (index t))))"
    by (simp add: calc_nonzero_rate_def)
  then show ?thesis
    by (simp add: calc_nonzero_count_def Let_def compute_map_Inr)
qed

lemma calc_nonzero_count_raises:
  assumes "index t = []" and "cols t \<noteq> []"
  shows "calc_nonzero_count t nr nc = Inl ZeroDivisionError"
proof -
  have "(\<lambda>i. calc_nonzero_rate (isnull (values_T t) ! i) (length (index t))) =
        (\<lambda>i. Inl ZeroDivisionError)"
    using assms by (simp add: calc_nonzero_rate_def)
  then show ?thesis
    using assms by (simp add: calc_nonzero_count_def Let_def compute_map_Inl)
qed

lemma count_nonzero_isnull:
  "count_nonzero (map (\<lambda>v. v = None) cs) = length (filter (\<lambda>v. v = None) cs)"
  by (simp add: count_nonzero_def length_filter_map comp_def)

lemma isnull_nth:
  "c < length (cols t) \<Longrightarrow> isnull (values_T t) ! c = map (\<lambda>v. v = None) (snd (cols t ! c))"
  by (simp add: isnull_def values_T_def)

subsection \<open>The rates of the global analyzer\<close>

text \<open>
  C1, as stated, at the frame A = [1, None, 3], B = [None, 2, 3]: the claim expects one
  density per row, 0.5, 0.5, 1.0. The analyzer returns one rate per column, the share of
  missing cells of the column: 1/3 for A and 1/3 for B.
\<close>

theorem density_per_row_counterexample:
  "map_sum id (count \<circ> result) (calc_nonzero_count example None None) = Inr [1 / 3, 1 / 3] \<and>
   map_sum id (count \<circ> result) (calc_nonzero_count example None None) \<noteq> Inr [1 / 2, 1 / 2, 1]"
  by (simp add: calc_nonzero_count_def example_def isnull_def values_T_def
      calc_nonzero_rate_def count_nonzero_def clip_def)

text \<open>
  C1, amended: for a frame with C columns and at least one row, the \<open>count\<close> sequence
  of the global analyzer is the same for every \<open>num_rows\<close> and \<open>num_cols\<close>, has exactly C
  entries, each in [0, 1], and entry c is the fraction of the rows that are missing in
  column c.
\<close>

theorem rates_per_column:
  assumes "wf_table t" and "index t \<noteq> []"
  shows "\<exists>cs. (\<forall>nr nc. \<exists>r. calc_nonzero_count t nr nc = Inr r \<and> count (result r) = cs) \<and>
           length cs = length (cols t) \<and>
           (\<forall>c < length (cols t).
              cs ! c = of_nat (length (filter (\<lambda>v. v = None) (snd (cols t ! c)))) /
                       of_nat (length (index t)) \<and>
              0 \<le> cs ! c \<and> cs ! c \<le> 1)"
proof -
  let ?R = "length (index t)"
  let ?cs = "map (\<lambda>i. of_nat (count_nonzero (isnull (values_T t) ! i)) / (of_nat ?R :: rat))
               [0..<length (cols t)]"
  have R: "0 < ?R" using assms(2) by simp
  have len: "length (snd (cols t ! c)) = ?R" if "c < length (cols t)" for c
    using assms(1) that by (simp add: wf_table_def list_all_length)
  have bound: "of_nat (length (filter (\<lambda>v. v = None) (snd (cols t ! c)))) / (of_nat ?R :: rat) \<le> 1"
    if "c < length (cols t)" for c
  proof -
    have "length (filter (\<lambda>v. v = None) (snd (cols t ! c))) \<le> ?R"
      using len [OF that] length_filter_le [of "\<lambda>v. v = None" "snd (cols t ! c)"] by simp
    then show ?thesis using R by simp
  qed
  have "\<forall>nr nc. \<exists>r. calc_nonzero_count t nr nc = Inr r \<and> count (result r) = ?cs"
    by (simp add: calc_nonzero_count_returns assms(2))
  moreover have "length ?cs = length (cols t)" by simp
  moreover have "\<forall>c < length (cols t).
              ?cs ! c = of_nat (length (filter (\<lambda>v. v = None) (snd (cols t ! c)))) /
                       of_nat (length (index t)) \<and>
              0 \<le> ?cs ! c \<and> ?cs ! c \<le> 1"
    using bound by (simp add: isnull_nth count_nonzero_isnull)
  ultimately show ?thesis by blast
qed

text \<open>C1, amended, at the frame A = [1, None, 3], B = [None, 2, 3]: the rates are 1/3, 1/3.\<close>

theorem rates_per_column_witness:
  "wf_table example \<and> index example \<noteq> [] \<and>
   (\<exists>cs. (\<forall>nr nc. \<exists>r. calc_nonzero_count example nr nc = Inr r \<and> count (result r) = cs) \<and>
      length cs = 2 \<and> cs ! 0 = 1 / 3 \<and> cs ! 1 = 1 / 3)"
proof -
  have wf: "wf_table example" by (simp add: wf_table_def example_def)
  have ne: "index example \<noteq> []" by (simp add: example_def)
  from rates_per_column [OF wf ne] obtain cs where
    all: "\<forall>nr nc. \<exists>r. calc_nonzero_count example nr nc = Inr r \<and> count (result r) = cs" and
    len: "length cs = length (cols example)" and
    each: "\<forall>c < length (cols example).
              cs ! c = of_nat (length (filter (\<lambda>v. v = None) (snd (cols example ! c)))) /
                       of_nat (length (index example)) \<and>
              0 \<le> cs ! c \<and> cs ! c \<le> 1"
    by blast
  have "length cs = 2" using len by (simp add: example_def)
  moreover have "cs ! 0 = 1 / 3" using each by (simp add: example_def)
  moreover have "cs ! 1 = 1 / 3" using each by (simp add: example_def)
  ultimately show ?thesis using wf ne all by blast
qed

subsection \<open>A frame without rows\<close>

text \<open>
  C3: at a frame with the one column A and no row the claim expects an empty rate
  sequence, an empty matrix and no error. Every column is one task that divides its
  count of missing cells, the Python int 0, by the number of rows, 0, so the analyzer
  raises \<^verbatim>\<open>ZeroDivisionError\<close>, and so does \<^verbatim>\<open>plot_missing\<close> called without \<open>x\<close> and \<open>y\<close>.
\<close>

theorem no_rows_raises:
  "calc_nonzero_count no_rows None None = Inl ZeroDivisionError \<and>
   plot_missing all_numeric captions no_rows None None None None False =
     Inl ZeroDivisionError"
  by (simp add: plot_missing_def columns_def all_numeric_def calc_nonzero_count_def
      no_rows_def isnull_def values_T_def calc_nonzero_rate_def)

subsection \<open>Truncating the presence matrix\<close>

lemma py_prefix_nonneg: "0 \<le> k \<Longrightarrow> py_prefix k xs = take (nat k) xs"
  by (simp add: py_prefix_def)

lemma clip_cols:
  "0 \<le> k \<Longrightarrow> clip nr (Some k) a = take (nat k) (clip nr None a)"
  by (cases nr) (simp_all add: clip_def py_prefix_nonneg take_map)

lemma clip_rows: "clip (Some m) None a = map (py_prefix m) a"
  by (simp add: clip_def)

lemma clip_none: "clip None None a = a"
  by (simp add: clip_def)

lemma length_clip_none: "length (clip nr None a) = length a"
  by (cases nr) (simp_all add: clip_def)

lemma calc_nonzero_count_Inr:
  "calc_nonzero_count t nr nc = Inr r \<Longrightarrow> index t \<noteq> [] \<or> cols t = []"
  using calc_nonzero_count_raises [of t nr nc] by auto

text \<open>
  C6: for a column cap \<open>k\<close> with \<open>0 \<le> k \<le> C\<close>, whenever the global analyzer returns, the
  matrix it returns has exactly \<open>k\<close> rows (one per column of the frame), which are the
  first \<open>k\<close> of the matrix returned without a column cap under the same row cap; that
  matrix is the untruncated matrix itself, or with a row cap \<open>m\<close> the untruncated matrix
  with \<^verbatim>\<open>[:m]\<close> applied to every row. The \<open>count\<close> output is the same for every choice of
  \<open>num_rows\<close> and \<open>num_cols\<close>.
\<close>

theorem truncation_keeps_prefix_and_rates:
  assumes "0 \<le> k" and "k \<le> int (length (cols t))"
    and "calc_nonzero_count t nr (Some k) = Inr r"
  shows "\<exists>r1 r0. calc_nonzero_count t nr None = Inr r1 \<and>
           calc_nonzero_count t None None = Inr r0 \<and>
           distribution (result r) = take (nat k) (distribution (result r1)) \<and>
           length (distribution (result r)) = nat k \<and>
           length (distribution (result r0)) = length (cols t) \<and>
           (nr = None \<longrightarrow> distribution (result r1) = distribution (result r0)) \<and>
           (\<forall>m. nr = Some m \<longrightarrow>
              distribution (result r1) = map (py_prefix m) (distribution (result r0))) \<and>
           (\<forall>nr' nc'. \<exists>r'. calc_nonzero_count t nr' nc' = Inr r' \<and>
              count (result r') = count (result r0))"
proof -
  let ?a = "map (map (\<lambda>b. if b then 1 else (0::int))) (isnull (values_T t))"
  have ok: "index t \<noteq> [] \<or> cols t = []"
    using assms(3) by (rule calc_nonzero_count_Inr)
  note ret = calc_nonzero_count_returns [OF ok]
  have la: "length ?a = length (cols t)"
    by (simp add: isnull_def values_T_def)
  have r: "distribution (result r) = clip nr (Some k) ?a"
    using assms(3) by (auto simp: ret)
  have "distribution (result r) = take (nat k) (clip nr None ?a)"
    using r assms(1) by (simp add: clip_cols)
  moreover have "length (take (nat k) (clip nr None ?a)) = nat k"
    using assms(1,2) la by (simp add: length_clip_none)
  moreover have "nr = None \<longrightarrow> clip nr None ?a = ?a"
    by (simp add: clip_none)
  moreover have "\<forall>m. nr = Some m \<longrightarrow> clip nr None ?a = map (py_prefix m) ?a"
    by (simp add: clip_rows)
  ultimately show ?thesis
    using la by (simp add: ret clip_none)
qed

text \<open>
  C6 at the frame A = [1, None, 3], B = [None, 2, 3] with \<open>num_rows = 2\<close> and
  \<open>num_cols = 1\<close>.
\<close>

theorem truncation_keeps_prefix_and_rates_witness:
  "(0::int) \<le> 1 \<and> 1 \<le> int (length (cols example)) \<and>
   (\<exists>r r1 r0. calc_nonzero_count example (Some 2) (Some 1) = Inr r \<and>
      calc_nonzero_count example (Some 2) None = Inr r1 \<and>
      calc_nonzero_count example None None = Inr r0 \<and>
      distribution (result r) = take 1 (distribution (result r1)) \<and>
      distribution (result r) = [[0, 1]] \<and>
      distribution (result r1) = [[0, 1], [1, 0]] \<and>
      distribution (result r0) = [[0, 1, 0], [1, 0, 0]] \<and>
      count (result r) = count (result r0))"
proof -
  have k: "(0::int) \<le> 1" "1 \<le> int (length (cols example))"
    by (simp_all add: example_def)
  have ok: "index example \<noteq> [] \<or> cols example = []"
    by (simp add: example_def)
  have a: "map (map (\<lambda>b. if b then 1 else (0::int))) (isnull (values_T example)) =
           [[0, 1, 0], [1, 0, 0]]"
    by (simp add: example_def isnull_def values_T_def)
  obtain r where r: "calc_nonzero_count example (Some 2) (Some 1) = Inr r"
    by (simp add: calc_nonzero_count_returns [OF ok])
  have d: "distribution (result r) = [[0, 1]]"
    using r by (auto simp: calc_nonzero_count_returns [OF ok] a clip_def py_prefix_def)
  from truncation_keeps_prefix_and_rates [OF k r] obtain r1 r0 where
    "calc_nonzero_count example (Some 2) None = Inr r1"
    "calc_nonzero_count example None None = Inr r0"
    "distribution (result r) = take (nat 1) (distribution (result r1))"
    "\<forall>nr' nc'. \<exists>r'. calc_nonzero_count example nr' nc' = Inr r' \<and>
              count (result r') = count (result r0)"
    by blast
  moreover from this(1) have "distribution (result r1) = [[0, 1], [1, 0]]"
    by (auto simp: calc_nonzero_count_returns [OF ok] a clip_def py_prefix_def)
  moreover from calculation(2) have "distribution (result r0) = [[0, 1, 0], [1, 0, 0]]"
    by (auto simp: calc_nonzero_count_returns [OF ok] a clip_def py_prefix_def)
  moreover from calculation(4) r have "count (result r) = count (result r0)"
    by (metis sum.inject(2))
  ultimately show ?thesis using k r d by auto
qed

subsection \<open>Dropping the rows that are missing in a column\<close>

lemma dropna_returns:
  "x \<in> set (columns t) \<Longrightarrow> dropna t [x] = Inr (take_rows t (positions t [x]))"
  by (simp add: dropna_def)

lemma dropna_raises:
  "x \<notin> set (columns t) \<Longrightarrow> dropna t [x] = Inl (KeyError [x])"
  by (simp add: dropna_def)

lemma columns_take_rows: "columns (take_rows t ps) = columns t"
  by (simp add: columns_def take_rows_def comp_def)

lemma index_take_rows: "length (index (take_rows t ps)) = length ps"
  by (simp add: take_rows_def)

lemma wf_take_rows: "wf_table (take_rows t ps)"
  by (simp add: wf_table_def take_rows_def list_all_iff)

lemma present_take_rows:
  assumes "c \<in> set (cols (take_rows t (positions t [x])))" and "fst c = x"
  shows "None \<notin> set (snd c)"
proof -
  from assms(1) obtain c0 where c0: "c0 \<in> set (cols t)"
    and c: "c = (fst c0, map (\<lambda>r. snd c0 ! r) (positions t [x]))"
    by (auto simp: take_rows_def)
  from c assms(2) have "fst c0 = x" by simp
  with c0 have mem: "c0 \<in> set (take_labels t [x])"
    by (simp add: take_labels_def)
  have "snd c0 ! r \<noteq> None" if "r \<in> set (positions t [x])" for r
    using that mem by (auto simp: positions_def list_all_iff)
  then show ?thesis
    using c by (fastforce simp: image_iff)
qed

lemma filter_eq_distinct:
  "distinct xs \<Longrightarrow> x \<in> set xs \<Longrightarrow> filter (\<lambda>n. n = x) xs = [x]"
  by (induction xs) (auto simp: filter_empty_conv)

lemma remove1_distinct:
  "distinct xs \<Longrightarrow> remove1 x xs = filter (\<lambda>n. n \<noteq> x) xs"
proof (induction xs)
  case Nil
  then show ?case by simp
next
  case (Cons a xs)
  show ?case
  proof (cases "a = x")
    case True
    with Cons.prems have "x \<notin> set xs" by simp
    then have "filter (\<lambda>n. n \<noteq> x) xs = xs"
      by (simp add: filter_id_conv) blast
    with True show ?thesis by simp
  next
    case False
    with Cons show ?thesis by simp
  qed
qed

lemma remove1_mem_count:
  "x \<in> set xs \<Longrightarrow> x \<notin> set (remove1 x xs) \<longleftrightarrow> count_list xs x = 1"
proof (induction xs)
  case Nil
  then show ?case by simp
next
  case (Cons a xs)
  show ?case
  proof (cases "a = x")
    case True
    then show ?thesis by (simp add: count_list_0_iff)
  next
    case False
    with Cons show ?thesis by simp
  qed
qed

text \<open>
  C7, as stated, at the frame A = [1, None], A = [2, 3], B = [None, 4] with \<open>x = A\<close>:
  the claim expects a name list that excludes A. \<^verbatim>\<open>columns_name.remove(x_name)\<close> drops
  the first occurrence only, so the analyzer returns [A, B], which still names A.
\<close>

theorem repeated_name_counterexample:
  "wf_table repeated_names \<and> ''A'' \<in> set (columns repeated_names) \<and>
   map_sum id (columns_name \<circ> result) (calc_missing_impact repeated_names ''A'' 10) =
     Inr [''A'', ''B'']"
  by (simp add: wf_table_def calc_missing_impact_def dropna_def list_remove_def columns_def
      repeated_names_def)

text \<open>
  C7, amended: for a column name \<open>x\<close> of the frame, the single-column analyzer returns
  the frame restricted to the rows in which every column named \<open>x\<close> is present, so no
  cell of \<open>x\<close> is missing in it, and the column names with the first occurrence of \<open>x\<close>
  removed: a list of length C - 1 in the original order. The list excludes \<open>x\<close> exactly
  when \<open>x\<close> names one column only, as it does when the column names are distinct.
\<close>

theorem single_column_impact:
  assumes "wf_table t" and "x \<in> set (columns t)"
  shows "\<exists>dropped names.
           calc_missing_impact t x bins =
             Inr \<lparr>result = Impact dropped names,
                  raw_data = \<lparr>df = t, x_name = Some x, y_name = None, num_bins = Some bins\<rparr>,
                  visual_type = ''dummy''\<rparr> \<and>
           dropped = take_rows t (positions t [x]) \<and>
           wf_table dropped \<and> columns dropped = columns t \<and>
           (\<forall>c \<in> set (cols dropped). fst c = x \<longrightarrow> None \<notin> set (snd c)) \<and>
           names = remove1 x (columns t) \<and>
           length names + 1 = length (columns t) \<and>
           (x \<notin> set names \<longleftrightarrow> count_list (columns t) x = 1) \<and>
           (distinct (columns t) \<longrightarrow>
              x \<notin> set names \<and> names = filter (\<lambda>n. n \<noteq> x) (columns t))"
proof -
  let ?d = "take_rows t (positions t [x])"
  have "calc_missing_impact t x bins =
          Inr \<lparr>result = Impact ?d (remove1 x (columns t)),
               raw_data = \<lparr>df = t, x_name = Some x, y_name = None, num_bins = Some bins\<rparr>,
               visual_type = ''dummy''\<rparr>"
    using assms(2) by (simp add: calc_missing_impact_def dropna_returns list_remove_def)
  moreover have "\<forall>c \<in> set (cols ?d). fst c = x \<longrightarrow> None \<notin> set (snd c)"
    using present_take_rows by blast
  moreover have "length (remove1 x (columns t)) + 1 = length (columns t)"
    using assms(2) by (simp add: length_remove1) (cases "columns t", auto)
  moreover have "x \<notin> set (remove1 x (columns t)) \<longleftrightarrow> count_list (columns t) x = 1"
    using assms(2) by (rule remove1_mem_count)
  moreover have "distinct (columns t) \<longrightarrow>
      x \<notin> set (remove1 x (columns t)) \<and>
      remove1 x (columns t) = filter (\<lambda>n. n \<noteq> x) (columns t)"
    by (auto simp: remove1_distinct)
  ultimately show ?thesis
    by (simp add: wf_take_rows columns_take_rows)
qed

text \<open>
  C7, amended, at the frame A = [1, None, 3], B = [None, 2, 3] with \<open>x = A\<close>: rows 0 and 2 are
  kept and the name list is [B].
\<close>

theorem single_column_impact_witness:
  "wf_table example \<and> ''A'' \<in> set (columns example) \<and>
   calc_missing_impact example ''A'' 10 =
     Inr \<lparr>result =
            Impact \<lparr>index = [0, 2],
                    cols = [(''A'', [Some (Num 1), Some (Num 3)]),
                            (''B'', [None, Some (Num 3)])]\<rparr> [''B''],
          raw_data = \<lparr>df = example, x_name = Some ''A'', y_name = None, num_bins = Some 10\<rparr>,
          visual_type = ''dummy''\<rparr>"
proof -
  have wf: "wf_table example" by (simp add: wf_table_def example_def)
  have x: "''A'' \<in> set (columns example)" by (simp add: columns_def example_def)
  have p: "positions example [''A''] = [0, 2]"
    by (simp add: positions_def take_labels_def example_def upt_rec)
  have d: "take_rows example [0, 2] =
      \<lparr>index = [0, 2],
       cols = [(''A'', [Some (Num 1), Some (Num 3)]), (''B'', [None, Some (Num 3)])]\<rparr>"
    by (simp add: take_rows_def example_def)
  have n: "remove1 ''A'' (columns example) = [''B'']"
    by (simp add: columns_def example_def)
  from single_column_impact [OF wf x, of 10] wf x show ?thesis
    by (auto simp: p d n)
qed

subsection \<open>Narrowing to two columns\<close>

lemma getitem_list_returns:
  "x \<in> set (columns t) \<Longrightarrow> y \<in> set (columns t) \<Longrightarrow>
   getitem_list t [x, y] = Inr \<lparr>index = index t, cols = take_labels t [x, y]\<rparr>"
  by (simp add: getitem_list_def)

lemma getitem_list_raises:
  "x \<notin> set (columns t) \<or> y \<notin> set (columns t) \<Longrightarrow>
   getitem_list t [x, y] = Inl (KeyError (filter (\<lambda>k. k \<notin> set (columns t)) [x, y]))"
  by (auto simp: getitem_list_def)

lemma map_fst_filter:
  "map fst (filter (\<lambda>c. fst c = k) cs) = filter (\<lambda>n. n = k) (map fst cs)"
  by (induction cs) simp_all

lemma columns_take_labels:
  "map fst (take_labels t [x, y]) =
   filter (\<lambda>n. n = x) (columns t) @ filter (\<lambda>n. n = y) (columns t)"
  by (simp add: take_labels_def columns_def map_fst_filter)

lemma wf_take_labels:
  "wf_table t \<Longrightarrow> wf_table \<lparr>index = index t, cols = take_labels t labels\<rparr>"
  by (auto simp: wf_table_def take_labels_def list_all_iff)

text \<open>
  C2, as stated, at the frame A = [1, None, 3], B = [None, 2, 3] with \<open>x = A\<close> and
  \<open>y = B\<close>: the claim expects the name list [B]. The analyzer returns the column list
  of the filtered two-column frame, [A, B].
\<close>

theorem two_column_names_counterexample:
  "map_sum id (columns_name \<circ> result) (calc_missing_impact_y example ''A'' ''B'' 10) =
     Inr [''A'', ''B''] \<and>
   map_sum id (columns_name \<circ> result) (calc_missing_impact_y example ''A'' ''B'' 10) \<noteq>
     Inr [''B'']"
  by (simp add: calc_missing_impact_y_def getitem_list_def dropna_def columns_def
      take_labels_def take_rows_def example_def)

text \<open>
  C2, amended: for distinct column names \<open>x\<close> and \<open>y\<close> of the frame, the two-column
  analyzer returns a filtered frame whose columns are the columns named \<open>x\<close> followed by
  the columns named \<open>y\<close> (exactly the two columns \<open>x\<close>, \<open>y\<close> in this order when the column
  names of the frame are distinct), in which no cell of \<open>x\<close> is missing, and a name list
  that is the column list of that filtered frame: [x, y], not [y].
\<close>

theorem two_column_impact:
  assumes "wf_table t" and "x \<in> set (columns t)" and "y \<in> set (columns t)" and "x \<noteq> y"
  shows "\<exists>dropped names.
           calc_missing_impact_y t x y bins =
             Inr \<lparr>result = Impact dropped names,
                  raw_data = \<lparr>df = t, x_name = Some x, y_name = Some y, num_bins = Some bins\<rparr>,
                  visual_type = ''dummy''\<rparr> \<and>
           wf_table dropped \<and>
           columns dropped =
             filter (\<lambda>n. n = x) (columns t) @ filter (\<lambda>n. n = y) (columns t) \<and>
           set (columns dropped) = {x, y} \<and>
           (distinct (columns t) \<longrightarrow> columns dropped = [x, y]) \<and>
           (\<forall>c \<in> set (cols dropped). fst c = x \<longrightarrow> None \<notin> set (snd c)) \<and>
           names = columns dropped"
proof -
  let ?sel = "\<lparr>index = index t, cols = take_labels t [x, y]\<rparr>"
  let ?d = "take_rows ?sel (positions ?sel [x])"
  have cs: "columns ?sel = filter (\<lambda>n. n = x) (columns t) @ filter (\<lambda>n. n = y) (columns t)"
    using columns_take_labels [of t x y] by (simp add: columns_def)
  have xs: "x \<in> set (columns ?sel)"
    using assms(2) by (simp add: cs)
  have "calc_missing_impact_y t x y bins =
          Inr \<lparr>result = Impact ?d (columns ?d),
               raw_data = \<lparr>df = t, x_name = Some x, y_name = Some y, num_bins = Some bins\<rparr>,
               visual_type = ''dummy''\<rparr>"
    using assms(2,3) xs
    by (simp add: calc_missing_impact_y_def getitem_list_returns dropna_returns)
  moreover have "columns ?d =
      filter (\<lambda>n. n = x) (columns t) @ filter (\<lambda>n. n = y) (columns t)"
    by (simp add: columns_take_rows cs)
  moreover have "set (filter (\<lambda>n. n = x) (columns t) @ filter (\<lambda>n. n = y) (columns t)) = {x, y}"
    using assms(2,3) by auto
  moreover have "distinct (columns t) \<longrightarrow>
      filter (\<lambda>n. n = x) (columns t) @ filter (\<lambda>n. n = y) (columns t) = [x, y]"
    using assms(2,3) by (simp add: filter_eq_distinct)
  moreover have "\<forall>c \<in> set (cols ?d). fst c = x \<longrightarrow> None \<notin> set (snd c)"
    using present_take_rows by blast
  ultimately show ?thesis
    by (simp add: wf_take_rows)
qed

text \<open>
  C2, amended, at the frame A = [1, None, 3], B = [None, 2, 3] with \<open>x = B\<close> and
  \<open>y = A\<close>: row 0 is dropped, and the columns and the name list are [B, A].
\<close>

theorem two_column_impact_witness:
  "wf_table example \<and> ''B'' \<in> set (columns example) \<and> ''A'' \<in> set (columns example) \<and>
   ''B'' \<noteq> ''A'' \<and>
   calc_missing_impact_y example ''B'' ''A'' 10 =
     Inr \<lparr>result =
            Impact \<lparr>index = [1, 2],
                    cols = [(''B'', [Some (Num 2), Some (Num 3)]),
                            (''A'', [None, Some (Num 3)])]\<rparr> [''B'', ''A''],
          raw_data = \<lparr>df = example, x_name = Some ''B'', y_name = Some ''A'',
                      num_bins = Some 10\<rparr>,
          visual_type = ''dummy''\<rparr>"
proof -
  have wf: "wf_table example" by (simp add: wf_table_def example_def)
  have x: "''B'' \<in> set (columns example)" by (simp add: columns_def example_def)
  have y: "''A'' \<in> set (columns example)" by (simp add: columns_def example_def)
  have ne: "''B'' \<noteq> ''A''" by simp
  have v: "calc_missing_impact_y example ''B'' ''A'' 10 =
     Inr \<lparr>result =
            Impact \<lparr>index = [1, 2],
                    cols = [(''B'', [Some (Num 2), Some (Num 3)]),
                            (''A'', [None, Some (Num 3)])]\<rparr> [''B'', ''A''],
          raw_data = \<lparr>df = example, x_name = Some ''B'', y_name = Some ''A'',
                      num_bins = Some 10\<rparr>,
          visual_type = ''dummy''\<rparr>"
    by (simp add: calc_missing_impact_y_def getitem_list_def dropna_def columns_def
        take_labels_def take_rows_def positions_def example_def upt_rec)
  from two_column_impact [OF wf x y ne, of 10] wf x y ne v show ?thesis
    by blast
qed

subsection \<open>A designated column that does not exist\<close>

text \<open>
  C8: the single-column analyzer raises \<^verbatim>\<open>KeyError\<close> (ColumnNotFound) when \<open>x\<close> is no
  column of the frame, and the two-column analyzer raises it when \<open>x\<close> or \<open>y\<close> is no
  column of the frame; the error names the labels that were not found.
\<close>

theorem column_not_found:
  "(x \<notin> set (columns t) \<longrightarrow>
      calc_missing_impact t x bins = Inl (KeyError [x]) \<and> ColumnNotFound (KeyError [x])) \<and>
   (x \<notin> set (columns t) \<or> y \<notin> set (columns t) \<longrightarrow>
      (\<exists>e. calc_missing_impact_y t x y bins = Inl e \<and> ColumnNotFound e \<and>
           e = KeyError (filter (\<lambda>k. k \<notin> set (columns t)) [x, y])))"
  by (auto simp: calc_missing_impact_def calc_missing_impact_y_def dropna_raises
      getitem_list_def)

text \<open>
  C8 at the frame A = [1, None, 3], B = [None, 2, 3], which has no column Z: alone,
  as \<open>x\<close> beside \<open>y = A\<close>, and as \<open>y\<close> beside \<open>x = A\<close>.
\<close>

theorem column_not_found_witness:
  "''Z'' \<notin> set (columns example) \<and>
   calc_missing_impact example ''Z'' 10 = Inl (KeyError [''Z'']) \<and>
   calc_missing_impact_y example ''Z'' ''A'' 10 = Inl (KeyError [''Z'']) \<and>
   calc_missing_impact_y example ''A'' ''Z'' 10 = Inl (KeyError [''Z''])"
proof -
  have z: "''Z'' \<notin> set (columns example)" by (simp add: columns_def example_def)
  have a: "''A'' \<in> set (columns example)" by (simp add: columns_def example_def)
  from column_not_found [of "''Z''" example 10 "''A''"] z a
  have "calc_missing_impact example ''Z'' 10 = Inl (KeyError [''Z''])"
    and "calc_missing_impact_y example ''Z'' ''A'' 10 = Inl (KeyError [''Z''])"
    by auto
  moreover from column_not_found [of "''A''" example 10 "''Z''"] z a
  have "calc_missing_impact_y example ''A'' ''Z'' 10 = Inl (KeyError [''Z''])"
    by auto
  ultimately show ?thesis using z by simp
qed

subsection \<open>Validation and dispatch\<close>

lemma check_types_passes:
  "\<forall>name \<in> set names. get_type (getitem t name) = TYPE_NUM \<or> get_type (getitem t name) = TYPE_CAT
   \<Longrightarrow> check_types get_type t names = Inr ()"
  by (induction names) auto

lemma check_types_raises:
  "\<exists>name \<in> set names. get_type (getitem t name) \<noteq> TYPE_NUM \<and> get_type (getitem t name) \<noteq> TYPE_CAT
   \<Longrightarrow> check_types get_type t names = Inl UnsupportedColumnType"
  by (induction names) auto

lemma check_types_cases:
  "check_types get_type t names = Inr () \<or>
   check_types get_type t names = Inl UnsupportedColumnType"
  by (induction names) auto

text \<open>
  C4, as stated, at the frame A = [1, None, 3], B = [None, 2, 3] with a classifier that
  supports no column, \<open>x\<close> absent and \<open>y = B\<close>: the claim expects InvalidArguments. The
  type check of the columns comes first and raises UnsupportedColumnType.
\<close>

theorem y_without_x_counterexample:
  "plot_missing none_supported captions example None (Some ''B'') None None False =
     Inl UnsupportedColumnType \<and>
   plot_missing none_supported captions example None (Some ''B'') None None False \<noteq>
     Inl InvalidArguments"
  by (simp add: plot_missing_def columns_def example_def none_supported_def
      UnsupportedColumnType_def InvalidArguments_def)

text \<open>
  C4, amended: for every frame whose columns all classify as \<open>TYPE_NUM\<close> or \<open>TYPE_CAT\<close>,
  the dispatcher called with \<open>x\<close> absent and \<open>y\<close> present fails with InvalidArguments,
  whatever the frame holds and whatever the other arguments are.
\<close>

theorem y_without_x:
  assumes "\<forall>name \<in> set (columns t).
             get_type (getitem t name) = TYPE_NUM \<or> get_type (getitem t name) = TYPE_CAT"
  shows "plot_missing get_type vis t None (Some y) nr nc ret = Inl InvalidArguments"
  using check_types_passes [OF assms] by (simp add: plot_missing_def)

text \<open>
  C4, amended, at the frame with one column and no row, all columns numeric, and a \<open>y\<close>
  that is no column of the frame.
\<close>

theorem y_without_x_witness:
  "columns no_rows = [''A''] \<and> all_numeric (getitem no_rows ''A'') = TYPE_NUM \<and>
   plot_missing all_numeric captions no_rows None (Some ''Z'') None None True =
     Inl (ValueError ''Please give a value to x_name'')"
proof -
  have c: "columns no_rows = [''A'']"
    by (simp add: columns_def no_rows_def)
  have a: "all_numeric (getitem no_rows ''A'') = TYPE_NUM"
    by (simp add: all_numeric_def)
  have h: "\<forall>name \<in> set (columns no_rows).
      all_numeric (getitem no_rows name) = TYPE_NUM \<or>
      all_numeric (getitem no_rows name) = TYPE_CAT"
    using a by (simp add: c)
  from y_without_x [OF h, of captions "''Z''" None None True] c a show ?thesis
    by (simp add: InvalidArguments_def)
qed

text \<open>
  C5: when some column of the frame classifies as neither \<open>TYPE_NUM\<close> nor \<open>TYPE_CAT\<close>, the
  dispatcher fails with UnsupportedColumnType for every combination of \<open>x\<close>, \<open>y\<close> and the
  other arguments. The outcome is the error alone: it holds no figure and no
  intermediate, and it is the same whatever the analyzers and the rendering would have
  done on the frame.
\<close>

theorem unsupported_column_fails_first:
  assumes "\<exists>name \<in> set (columns t).
             get_type (getitem t name) \<noteq> TYPE_NUM \<and> get_type (getitem t name) \<noteq> TYPE_CAT"
  shows "plot_missing get_type vis t x y nr nc ret = Inl UnsupportedColumnType"
  using check_types_raises [OF assms] by (simp add: plot_missing_def)

text \<open>
  C5 at the frame with one column and no row and a classifier that supports no column:
  with no name given (where the global analyzer alone would divide by zero), with
  names that are no columns (where the impact analyzers alone would raise
  \<^verbatim>\<open>KeyError\<close>), and with \<open>y\<close> alone.
\<close>

theorem unsupported_column_fails_first_witness:
  "(\<exists>name \<in> set (columns no_rows).
      none_supported (getitem no_rows name) \<noteq> TYPE_NUM \<and>
      none_supported (getitem no_rows name) \<noteq> TYPE_CAT) \<and>
   plot_missing none_supported captions no_rows None None None None True =
     Inl (ValueError ''the column's data type is error'') \<and>
   plot_missing none_supported captions no_rows (Some ''Z'') None None None True =
     Inl (ValueError ''the column's data type is error'') \<and>
   plot_missing none_supported captions no_rows (Some ''Z'') (Some ''Y'') None None True =
     Inl (ValueError ''the column's data type is error'') \<and>
   plot_missing none_supported captions no_rows None (Some ''A'') None None True =
     Inl (ValueError ''the column's data type is error'')"
proof -
  have h: "\<exists>name \<in> set (columns no_rows).
      none_supported (getitem no_rows name) \<noteq> TYPE_NUM \<and>
      none_supported (getitem no_rows name) \<noteq> TYPE_CAT"
    by (simp add: none_supported_def columns_def no_rows_def)
  note u = unsupported_column_fails_first [OF h, of captions]
  from u [of None None None None True] u [of "Some ''Z''" None None None True]
    u [of "Some ''Z''" "Some ''Y''" None None True] u [of None "Some ''A''" None None True] h
  show ?thesis
    by (simp add: UnsupportedColumnType_def)
qed

text \<open>
  C10: when the dispatcher is called with \<open>x\<close> given, with or without \<open>y\<close>, and asked for
  the intermediate, whatever it returns is a figure with an intermediate whose
  \<open>raw_data\<close> records \<open>num_bins = 10\<close> (beside the frame and the names it was called
  with); the dispatcher has no parameter for the bin count.
\<close>

theorem bin_count_is_ten:
  assumes "plot_missing get_type vis t (Some x) y nr nc True = Inr out"
  shows "\<exists>fig im. out = FigIntermediate fig im \<and> num_bins (raw_data im) = Some 10 \<and>
           df (raw_data im) = t \<and> x_name (raw_data im) = Some x \<and> y_name (raw_data im) = y"
proof -
  from assms have ok: "check_types get_type t (columns t) = Inr ()"
    using check_types_cases [of get_type t "columns t"]
    by (auto simp: plot_missing_def)
  show ?thesis
  proof (cases y)
    case None
    with assms ok obtain im where
      im: "calc_missing_impact t x 10 = Inr im" and
      out: "out = FigIntermediate (vis_missing_impact vis im the_params) im"
      by (auto simp: plot_missing_def finish_def split: sum.splits)
    from im have "num_bins (raw_data im) = Some 10 \<and> df (raw_data im) = t \<and>
        x_name (raw_data im) = Some x \<and> y_name (raw_data im) = None"
      by (auto simp: calc_missing_impact_def split: sum.splits)
    with out None show ?thesis by simp
  next
    case (Some yn)
    with assms ok obtain im where
      im: "calc_missing_impact_y t x yn 10 = Inr im" and
      out: "out = FigIntermediate (vis_missing_impact_y vis im the_params) im"
      by (auto simp: plot_missing_def finish_def split: sum.splits)
    from im have "num_bins (raw_data im) = Some 10 \<and> df (raw_data im) = t \<and>
        x_name (raw_data im) = Some x \<and> y_name (raw_data im) = Some yn"
      by (auto simp: calc_missing_impact_y_def split: sum.splits)
    with out Some show ?thesis by simp
  qed
qed

text \<open>
  C10 at the frame A = [1, None, 3], B = [None, 2, 3], all columns numeric, with
  \<open>x = A\<close> and \<open>y = B\<close>.
\<close>

theorem bin_count_is_ten_witness:
  "\<exists>fig im. plot_missing all_numeric captions example (Some ''A'') (Some ''B'') None None True =
       Inr (FigIntermediate fig im) \<and>
     num_bins (raw_data im) = Some 10 \<and> x_name (raw_data im) = Some ''A'' \<and>
     y_name (raw_data im) = Some ''B''"
proof -
  have c: "check_types all_numeric example (columns example) = Inr ()"
    by (rule check_types_passes) (simp add: all_numeric_def)
  obtain im0 where im0: "calc_missing_impact_y example ''A'' ''B'' 10 = Inr im0"
    by (simp add: calc_missing_impact_y_def getitem_list_def dropna_def
        columns_def take_labels_def take_rows_def example_def)
  obtain out where
    out: "plot_missing all_numeric captions example (Some ''A'') (Some ''B'') None None True =
            Inr out"
    by (simp add: plot_missing_def c im0)
  from bin_count_is_ten [OF out] out show ?thesis
    by auto
qed

subsection \<open>The values computed on the store\<close>

text \<open>
  On a reference in use, the functions on the store compute what the functions on values
  compute on the frame at that reference, so the properties above hold of them as well.
\<close>

lemma calc_nonzero_count_st_value:
  "value_of (calc_nonzero_count_st h a nr nc) = calc_nonzero_count (frames h a) nr nc"
proof (cases "calc_nonzero_count (frames h a) nr nc")
  case (Inl e)
  then show ?thesis by (simp add: value_of_def calc_nonzero_count_st_def)
next
  case (Inr im)
  from calc_nonzero_count_returns [OF calc_nonzero_count_Inr [OF Inr], of nr nc] Inr
  show ?thesis
    by (simp add: value_of_def calc_nonzero_count_st_def deref_def)
qed

lemma calc_missing_impact_st_value:
  assumes "a < next_ref h"
  shows "value_of (calc_missing_impact_st h a x bins) = calc_missing_impact (frames h a) x bins"
proof (cases "dropna (frames h a) [x]")
  case (Inl e)
  then show ?thesis
    by (simp add: value_of_def calc_missing_impact_st_def calc_missing_impact_def dropna_st_def)
next
  case d: (Inr t)
  show ?thesis
  proof (cases "list_remove (columns (frames h a)) x")
    case (Inl e)
    with d assms show ?thesis
      by (simp add: value_of_def calc_missing_impact_st_def calc_missing_impact_def
          dropna_st_def new_frame_def list_columns_st_def new_list_def remove_st_def)
  next
    case (Inr lst)
    with d assms show ?thesis
      by (simp add: value_of_def calc_missing_impact_st_def calc_missing_impact_def
          dropna_st_def new_frame_def list_columns_st_def new_list_def remove_st_def deref_def)
  qed
qed

lemma calc_missing_impact_y_st_value:
  assumes "a < next_ref h"
  shows "value_of (calc_missing_impact_y_st h a x y bins) =
         calc_missing_impact_y (frames h a) x y bins"
proof (cases "getitem_list (frames h a) [x, y]")
  case (Inl e)
  then show ?thesis
    by (simp add: value_of_def calc_missing_impact_y_st_def calc_missing_impact_y_def
        getitem_list_st_def)
next
  case g: (Inr s)
  show ?thesis
  proof (cases "dropna s [x]")
    case (Inl e)
    with g assms show ?thesis
      by (simp add: value_of_def calc_missing_impact_y_st_def calc_missing_impact_y_def
          getitem_list_st_def dropna_st_def new_frame_def)
  next
    case (Inr t)
    with g assms show ?thesis
      by (simp add: value_of_def calc_missing_impact_y_st_def calc_missing_impact_y_def
          getitem_list_st_def dropna_st_def new_frame_def list_columns_st_def new_list_def
          deref_def)
  qed
qed

lemma returned_of_render_st:
  "returned_of (render_st vis_fn ret outcome) =
     (case value_of outcome of
        Inl e \<Rightarrow> Inl e
      | Inr intermediate \<Rightarrow> Inr (finish ret (vis_fn intermediate the_params) intermediate))"
proof (cases outcome)
  case (Pair out h)
  then show ?thesis
    by (cases out) (simp_all add: returned_of_def render_st_def value_of_def finish_def)
qed

lemma plot_missing_st_value:
  assumes "a < next_ref h"
  shows "returned_of (plot_missing_st get_type vis h a xo yo nr nc ret) =
         plot_missing get_type vis (frames h a) xo yo nr nc ret"
proof -
  obtain r1 h1 where l: "list_columns_st h a = (r1, h1)"
    by (cases "list_columns_st h a")
  from l assms have f: "frames h1 a = frames h a" and n: "name_lists h1 r1 = columns (frames h a)"
    and a1: "a < next_ref h1"
    by (auto simp: list_columns_st_def new_list_def)
  show ?thesis
  proof (cases "check_types get_type (frames h a) (columns (frames h a))")
    case (Inl e)
    with l f n show ?thesis
      by (simp add: plot_missing_st_def plot_missing_def returned_of_def)
  next
    case c: (Inr u)
    show ?thesis
    proof (cases xo)
      case None
      show ?thesis
      proof (cases yo)
        case yo: None
        from l f n c None yo show ?thesis
          by (simp add: plot_missing_st_def plot_missing_def returned_of_render_st
              calc_nonzero_count_st_value)
      next
        case (Some yn)
        with l f n c None show ?thesis
          by (simp add: plot_missing_st_def plot_missing_def returned_of_def)
      qed
    next
      case (Some xn)
      show ?thesis
      proof (cases yo)
        case None
        from l f n c Some None show ?thesis
          by (simp add: plot_missing_st_def plot_missing_def returned_of_render_st
              calc_missing_impact_st_value [OF a1])
      next
        case yo: (Some yn)
        from l f n c Some yo show ?thesis
          by (simp add: plot_missing_st_def plot_missing_def returned_of_render_st
              calc_missing_impact_y_st_value [OF a1])
      qed
    qed
  qed
qed

subsection \<open>The caller's frame\<close>

lemma unchanged_refl: "unchanged h h"
  by (simp add: unchanged_def)

lemma unchanged_trans:
  assumes "unchanged h h1" and "unchanged h1 h2"
  shows "unchanged h h2"
  using assms by (simp add: unchanged_def)

lemma unchanged_new_frame: "unchanged h (snd (new_frame h t))"
  by (simp add: unchanged_def new_frame_def)

lemma unchanged_new_list: "unchanged h (snd (new_list h lst))"
  by (simp add: unchanged_def new_list_def)

lemma fst_new_list: "fst (new_list h lst) = next_ref h"
  by (simp add: new_list_def)

lemma unchanged_next_ref: "unchanged h h' \<Longrightarrow> next_ref h \<le> next_ref h'"
  by (simp add: unchanged_def)

lemma dropna_st_unchanged: "unchanged h (snd (dropna_st h r labels))"
  by (cases "dropna (frames h r) labels")
    (simp_all add: dropna_st_def unchanged_refl unchanged_new_frame)

lemma getitem_list_st_unchanged: "unchanged h (snd (getitem_list_st h r labels))"
  by (cases "getitem_list (frames h r) labels")
    (simp_all add: getitem_list_st_def unchanged_refl unchanged_new_frame)

lemma list_columns_st_unchanged: "unchanged h (snd (list_columns_st h r))"
  by (simp add: list_columns_st_def unchanged_new_list)

lemma fst_list_columns_st: "fst (list_columns_st h r) = next_ref h"
  by (simp add: list_columns_st_def fst_new_list)

lemma remove_st_fresh:
  assumes "unchanged h h1" and "next_ref h \<le> r"
  shows "unchanged h (snd (remove_st h1 r x))"
  using assms
  by (cases "list_remove (name_lists h1 r) x") (simp_all add: remove_st_def unchanged_def)

lemma calc_nonzero_count_st_store: "snd (calc_nonzero_count_st h a nr nc) = h"
  by (cases "calc_nonzero_count (frames h a) nr nc") (simp_all add: calc_nonzero_count_st_def)

lemma calc_missing_impact_st_unchanged:
  "unchanged h (snd (calc_missing_impact_st h a x bins))"
proof -
  obtain o1 h1 where d: "dropna_st h a [x] = (o1, h1)"
    by (cases "dropna_st h a [x]")
  obtain r2 h2 where l: "list_columns_st h1 a = (r2, h2)"
    by (cases "list_columns_st h1 a")
  obtain o3 h3 where m: "remove_st h2 r2 x = (o3, h3)"
    by (cases "remove_st h2 r2 x")
  from dropna_st_unchanged [of h a "[x]"] d have u1: "unchanged h h1" by simp
  from list_columns_st_unchanged [of h1 a] l have "unchanged h1 h2" by simp
  with u1 have u2: "unchanged h h2" by (rule unchanged_trans)
  from fst_list_columns_st [of h1 a] l have "r2 = next_ref h1" by simp
  with unchanged_next_ref [OF u1] have "next_ref h \<le> r2" by simp
  from remove_st_fresh [OF u2 this, of x] m have u3: "unchanged h h3" by simp
  show ?thesis
  proof (cases o1)
    case (Inl e)
    with d u1 show ?thesis by (simp add: calc_missing_impact_st_def)
  next
    case (Inr r1)
    with d l m u3 show ?thesis
      by (cases o3) (simp_all add: calc_missing_impact_st_def)
  qed
qed

lemma calc_missing_impact_y_st_unchanged:
  "unchanged h (snd (calc_missing_impact_y_st h a x y bins))"
proof -
  obtain o1 h1 where g: "getitem_list_st h a [x, y] = (o1, h1)"
    by (cases "getitem_list_st h a [x, y]")
  from getitem_list_st_unchanged [of h a "[x, y]"] g have u1: "unchanged h h1" by simp
  show ?thesis
  proof (cases o1)
    case (Inl e)
    with g u1 show ?thesis by (simp add: calc_missing_impact_y_st_def)
  next
    case o1: (Inr r1)
    obtain o2 h2 where d: "dropna_st h1 r1 [x] = (o2, h2)"
      by (cases "dropna_st h1 r1 [x]")
    from dropna_st_unchanged [of h1 r1 "[x]"] d have "unchanged h1 h2" by simp
    with u1 have u2: "unchanged h h2" by (rule unchanged_trans)
    show ?thesis
    proof (cases o2)
      case (Inl e)
      with g d o1 u2 show ?thesis by (simp add: calc_missing_impact_y_st_def)
    next
      case o2: (Inr r2)
      obtain r3 h3 where l: "list_columns_st h2 r2 = (r3, h3)"
        by (cases "list_columns_st h2 r2")
      from list_columns_st_unchanged [of h2 r2] l have "unchanged h2 h3" by simp
      with u2 have "unchanged h h3" by (rule unchanged_trans)
      with g d l o1 o2 show ?thesis by (simp add: calc_missing_impact_y_st_def)
    qed
  qed
qed

lemma render_st_store: "snd (render_st vis_fn ret outcome) = snd outcome"
proof (cases outcome)
  case (Pair out h)
  then show ?thesis by (cases out) (simp_all add: render_st_def)
qed

lemma plot_missing_st_unchanged:
  "unchanged h (snd (plot_missing_st get_type vis h a xo yo nr nc ret))"
proof -
  obtain r1 h1 where l: "list_columns_st h a = (r1, h1)"
    by (cases "list_columns_st h a")
  from list_columns_st_unchanged [of h a] l have u1: "unchanged h h1" by simp
  show ?thesis
  proof (cases "check_types get_type (frames h1 a) (name_lists h1 r1)")
    case (Inl e)
    with l u1 show ?thesis by (simp add: plot_missing_st_def)
  next
    case c: (Inr u)
    show ?thesis
    proof (cases xo)
      case None
      show ?thesis
      proof (cases yo)
        case yo: None
        from l c None yo u1 show ?thesis
          by (simp add: plot_missing_st_def render_st_store calc_nonzero_count_st_store)
      next
        case (Some yn)
        with l c None u1 show ?thesis by (simp add: plot_missing_st_def)
      qed
    next
      case (Some xn)
      show ?thesis
      proof (cases yo)
        case None
        from unchanged_trans [OF u1 calc_missing_impact_st_unchanged [of h1 a xn 10]]
        show ?thesis using l c Some None
          by (simp add: plot_missing_st_def render_st_store)
      next
        case yo: (Some yn)
        from unchanged_trans [OF u1 calc_missing_impact_y_st_unchanged [of h1 a xn yn 10]]
        show ?thesis using l c Some yo
          by (simp add: plot_missing_st_def render_st_store)
      qed
    qed
  qed
qed

text \<open>
  C9: the caller's frame lives at a reference \<open>a\<close> in use. Whatever a call of one of the
  three analyzers or of the dispatcher on \<open>a\<close> returns or raises, in the store \<open>h'\<close> it
  leaves the frame at \<open>a\<close> is the one it was before the call, and so is every other
  object that was in use: the calls only add objects, and the one list changed in
  place is a copy the call has made.
\<close>

theorem callers_frame_is_not_mutated:
  assumes "a < next_ref h"
    and "h' \<in> {snd (calc_nonzero_count_st h a nr nc),
               snd (calc_missing_impact_st h a x bins),
               snd (calc_missing_impact_y_st h a x y bins),
               snd (plot_missing_st get_type vis h a xo yo nr nc ret)}"
  shows "frames h' a = frames h a \<and> unchanged h h'"
proof -
  from assms(2) have "unchanged h h'"
    using unchanged_refl [of h] calc_missing_impact_st_unchanged [of h a x bins]
      calc_missing_impact_y_st_unchanged [of h a x y bins]
      plot_missing_st_unchanged [of h get_type vis a xo yo nr nc ret]
    by (auto simp: calc_nonzero_count_st_store)
  with assms(1) show ?thesis by (simp add: unchanged_def)
qed

text \<open>
  C9 at the store holding the frame A = [1, None, 3], B = [None, 2, 3] at reference 0,
  for the single-column analyzer. With \<open>x = A\<close> the call returns, the new frame is at
  reference 1 and the list [B], changed in place, at reference 2; with \<open>x = C\<close> the
  call raises \<^verbatim>\<open>KeyError\<close>. The frame at reference 0 is the same after both.
\<close>

theorem callers_frame_is_not_mutated_witness:
  "0 < next_ref example_store \<and> frames example_store 0 = example \<and>
   fst (calc_missing_impact_st example_store 0 ''A'' 10) =
     Inr \<lparr>result_st = Impact_st 1 2, df_st = 0, x_name_st = Some ''A'', y_name_st = None,
          num_bins_st = Some 10\<rparr> \<and>
   name_lists (snd (calc_missing_impact_st example_store 0 ''A'' 10)) 2 = [''B''] \<and>
   frames (snd (calc_missing_impact_st example_store 0 ''A'' 10)) 0 = example \<and>
   fst (calc_missing_impact_st example_store 0 ''C'' 10) = Inl (KeyError [''C'']) \<and>
   frames (snd (calc_missing_impact_st example_store 0 ''C'' 10)) 0 = example"
proof -
  have a: "0 < next_ref example_store" and f: "frames example_store 0 = example"
    by (simp_all add: example_store_def)
  have d: "dropna example [''A''] = Inr (take_rows example (positions example [''A'']))"
    by (simp add: dropna_def columns_def example_def)
  have n: "list_remove (columns example) ''A'' = Inr [''B'']"
    by (simp add: list_remove_def columns_def example_def)
  have c: "dropna example [''C''] = Inl (KeyError [''C''])"
    by (simp add: dropna_def columns_def example_def)
  have ok: "fst (calc_missing_impact_st example_store 0 ''A'' 10) =
     Inr \<lparr>result_st = Impact_st 1 2, df_st = 0, x_name_st = Some ''A'', y_name_st = None,
          num_bins_st = Some 10\<rparr> \<and>
     name_lists (snd (calc_missing_impact_st example_store 0 ''A'' 10)) 2 = [''B'']"
    by (simp add: calc_missing_impact_st_def dropna_st_def new_frame_def list_columns_st_def
        new_list_def remove_st_def example_store_def d n)
  have ko: "fst (calc_missing_impact_st example_store 0 ''C'' 10) = Inl (KeyError [''C''])"
    by (simp add: calc_missing_impact_st_def dropna_st_def example_store_def c)
  from callers_frame_is_not_mutated [OF a, of "snd (calc_missing_impact_st example_store 0 ''A'' 10)"
      None None "''A''" 10]
  have 1: "frames (snd (calc_missing_impact_st example_store 0 ''A'' 10)) 0 = example"
    using f by simp
  from callers_frame_is_not_mutated [OF a, of "snd (calc_missing_impact_st example_store 0 ''C'' 10)"
      None None "''C''" 10]
  have 2: "frames (snd (calc_missing_impact_st example_store 0 ''C'' 10)) 0 = example"
    using f by simp
  from a f ok ko 1 2 show ?thesis by simp
qed

end
